theory Spec2Isabelle
  imports Main "HOL-Library.Sublist"
begin

section \<open>Strings, exceptions and the user interface\<close>

text \<open>
  A Python \<open>str\<close> is a sequence of Unicode code points and \<open>len\<close> counts code points,
  so a string is a list of code points here, not a list of bytes. Literals of the
  source are written \<open>lit ''...''\<close>.
\<close>

type_synonym ustr = "nat list"

definition lit :: "string \<Rightarrow> ustr" where
  "lit s = map of_char s"

text \<open>
  Every \<open>try\<close> block of \<open>main.py\<close> ends in \<open>except Exception as e\<close> and reads only
  \<open>str(e)\<close>, so an exception is its message. Exceptions outside \<open>Exception\<close>
  (\<open>KeyboardInterrupt\<close>, \<open>SystemExit\<close>) are not modelled.
\<close>

datatype exn = Exception ustr

fun str_exn :: "exn \<Rightarrow> ustr" where
  "str_exn (Exception m) = m"

text \<open>What the functions show to the user: \<open>st.error\<close> and \<open>st.success\<close>.\<close>

datatype ui_msg = StError ustr | StSuccess ustr

section \<open>Python string methods used by \<open>scrape_page\<close>\<close>

text \<open>\<open>str.isspace\<close> on one code point: the characters \<open>str.strip()\<close> removes.\<close>

definition is_space :: "nat \<Rightarrow> bool" where
  "is_space c = ((9 \<le> c \<and> c \<le> 13) \<or> (28 \<le> c \<and> c \<le> 32) \<or> c = 133 \<or> c = 160
     \<or> c = 5760 \<or> (8192 \<le> c \<and> c \<le> 8202) \<or> c = 8232 \<or> c = 8233 \<or> c = 8239
     \<or> c = 8287 \<or> c = 12288)"

text \<open>The line boundaries of \<open>str.splitlines()\<close>; \<open>\r\n\<close> is handled in \<open>splitlines\<close>.\<close>

definition is_linebreak :: "nat \<Rightarrow> bool" where
  "is_linebreak c = ((10 \<le> c \<and> c \<le> 13) \<or> (28 \<le> c \<and> c \<le> 30) \<or> c = 133
     \<or> c = 8232 \<or> c = 8233)"

definition strip :: "ustr \<Rightarrow> ustr" where
  "strip s = rev (dropWhile is_space (rev (dropWhile is_space s)))"

fun splitlines :: "ustr \<Rightarrow> ustr list" where
  "splitlines [] = []"
| "splitlines [c] = (if is_linebreak c then [[]] else [[c]])"
| "splitlines (c # d # cs) =
     (if c = 13 \<and> d = 10 then [] # splitlines cs
      else if is_linebreak c then [] # splitlines (d # cs)
      else (case splitlines (d # cs) of
              [] \<Rightarrow> [[c]]
            | l # ls \<Rightarrow> (c # l) # ls))"

text \<open>
  \<open>s.split(sep)\<close> for a separator given explicitly: cuts at the non-overlapping
  occurrences of \<open>sep\<close> from the left and keeps empty pieces. Python raises
  \<open>ValueError\<close> on an empty separator; the source only passes two spaces, and the
  model never cuts on an empty one.
\<close>

function split_sep :: "ustr \<Rightarrow> ustr \<Rightarrow> ustr list" where
  "split_sep sep [] = [[]]"
| "split_sep sep (c # cs) =
     (if sep \<noteq> [] \<and> take (length sep) (c # cs) = sep
      then [] # split_sep sep (drop (length sep - 1) cs)
      else (case split_sep sep cs of
              [] \<Rightarrow> [[c]]
            | p # ps \<Rightarrow> (c # p) # ps))"
  by pat_completeness auto
termination
  by (relation "measure (\<lambda>(sep, s). length s)") auto

fun join :: "ustr \<Rightarrow> ustr list \<Rightarrow> ustr" where
  "join sep [] = []"
| "join sep [x] = x"
| "join sep (x # y # ys) = x @ sep @ join sep (y # ys)"

text \<open>\<open>str(n)\<close> for a non-negative integer, used in the message of an HTTP error.\<close>

fun str_nat :: "nat \<Rightarrow> ustr" where
  "str_nat n = (if n < 10 then [48 + n] else str_nat (n div 10) @ [48 + n mod 10])"

declare str_nat.simps [simp del]

text \<open>
  \<open>xs[:n]\<close> for a Python integer \<open>n\<close>: a negative \<open>n\<close> counts from the end.
\<close>

definition slice_to :: "'a list \<Rightarrow> int \<Rightarrow> 'a list" where
  "slice_to xs n = (if 0 \<le> n then take (nat n) xs else take (length xs - nat (- n)) xs)"

section \<open>The parsed page\<close>

text \<open>
  What \<open>BeautifulSoup(response.content, 'html.parser')\<close> returns: a forest of tags and
  strings. A \<open>Text\<close> node is a string that \<open>get_text()\<close> returns (comments are not);
  a \<open>Tag\<close> has a name, its attributes and its children.
\<close>

datatype node = Text ustr | Tag ustr "(ustr \<times> ustr) list" "node list"

text \<open>The tags of a subtree in document order, as \<open>find_all\<close> and \<open>find\<close> visit them.\<close>

fun tags_of :: "node \<Rightarrow> node list" where
  "tags_of (Text s) = []"
| "tags_of (Tag name attrs children) =
     Tag name attrs children # concat (map tags_of children)"

fun get_text :: "node \<Rightarrow> ustr" where
  "get_text (Text s) = s"
| "get_text (Tag name attrs children) = concat (map get_text children)"

text \<open>\<open>soup.find_all('a', href=True)\<close>, each tag read at \<open>link['href']\<close>.\<close>

fun href_of :: "node \<Rightarrow> ustr list" where
  "href_of (Text s) = []"
| "href_of (Tag name attrs children) =
     (if name = lit ''a'' then (case map_of attrs (lit ''href'') of None \<Rightarrow> [] | Some h \<Rightarrow> [h])
      else [])"

definition find_all_a_href :: "node list \<Rightarrow> ustr list" where
  "find_all_a_href soup = concat (map href_of (concat (map tags_of soup)))"

text \<open>\<open>soup.find('title')\<close>: the first tag of that name, or \<open>None\<close>.\<close>

definition find_tag :: "ustr \<Rightarrow> node list \<Rightarrow> node option" where
  "find_tag name soup =
     List.find (\<lambda>t. case t of Text s \<Rightarrow> False | Tag n attrs children \<Rightarrow> n = name)
       (concat (map tags_of soup))"

text \<open>
  \<open>for script in soup(["script", "style"]): script.decompose()\<close>: every tag with one of
  the names leaves the tree with all it contains.
\<close>

fun decompose :: "ustr list \<Rightarrow> node \<Rightarrow> node list" where
  "decompose names (Text s) = [Text s]"
| "decompose names (Tag name attrs children) =
     (if name \<in> set names then []
      else [Tag name attrs (concat (map (decompose names) children))])"

section \<open>Requests, the table and the outside world\<close>

datatype http_method = GET | POST

record request =
  req_method :: http_method
  req_url :: ustr
  req_headers :: "(ustr \<times> ustr) list"
  req_timeout :: "nat option"

record response =
  status_code :: nat
  reason :: ustr
  resp_url :: ustr
  resp_content :: ustr

text \<open>
  \<open>response.raise_for_status()\<close>: a status from 400 to 599 raises \<open>HTTPError\<close> with the
  message \<open>requests\<close> builds.
\<close>

definition raise_for_status :: "response \<Rightarrow> exn + unit" where
  "raise_for_status r =
     (if 400 \<le> status_code r \<and> status_code r < 500
      then Inl (Exception (str_nat (status_code r) @ lit '' Client Error: '' @ reason r
                  @ lit '' for url: '' @ resp_url r))
      else if 500 \<le> status_code r \<and> status_code r < 600
      then Inl (Exception (str_nat (status_code r) @ lit '' Server Error: '' @ reason r
                  @ lit '' for url: '' @ resp_url r))
      else Inr ())"

text \<open>
  The dictionary \<open>scrape_page\<close> returns, and a row of \<open>scraped_data\<close>: the same three
  columns with the \<open>IDENTITY\<close> key and the \<open>GETDATE()\<close> default. \<open>save_to_database\<close>
  is the only insert of the program and always binds three Python strings, so the
  columns of a row are strings (never \<open>NULL\<close>). \<open>scraped_at\<close> is a \<open>DATETIME\<close>, counted
  in ticks of the server's clock.
\<close>

record page =
  url :: ustr
  title :: ustr
  content :: ustr

record row = page +
  row_id :: int
  scraped_at :: nat

record table =
  rows :: "row list"
  next_identity :: int

text \<open>
  The outside world as one call of a function meets it. The library functions and the
  services are parameters: the theorems hold for each of them.
  \<^item> \<open>http_get\<close>: \<open>requests.get\<close>, the response or the exception it raises;
  \<^item> \<open>html_parser\<close>: the \<open>BeautifulSoup\<close> constructor;
  \<^item> \<open>urljoin\<close>, \<open>netloc\<close>: \<open>urllib.parse.urljoin\<close> and \<open>urlparse(u).netloc\<close>, which raise
    \<open>ValueError\<close> on some malformed URLs;
  \<^item> \<open>odbc_fault\<close>: the exception, if any, that the driver raises during this call
    (connecting, executing or committing); the transaction is then not committed;
  \<^item> \<open>getdate\<close>: the reading of the server's clock during this call;
  \<^item> \<open>collation_eq\<close>: equality of two characters under the collation of column \<open>url\<close>,
    which the table takes from the database (the binary collations compare code points,
    the default ones ignore case); collations that compare more than one character at
    a time are outside the model;
  \<^item> \<open>code_page\<close>: what a character outside ASCII becomes when the server stores it
    in a \<open>varchar\<close> value: itself where the code page of the database has it, its
    replacement (often a question mark) otherwise;
  \<^item> \<open>sql_other\<close>: the server's answer to a statement outside the fragment modelled in
    \<open>exec_delete_like\<close>;
  \<^item> \<open>agent_run\<close>: building the LangChain agent with an API key and running it on a
    question against the table: its answer or exception, and the table it leaves.
\<close>

record env =
  http_get :: "request \<Rightarrow> exn + response"
  html_parser :: "ustr \<Rightarrow> exn + node list"
  urljoin :: "ustr \<Rightarrow> ustr \<Rightarrow> exn + ustr"
  netloc :: "ustr \<Rightarrow> exn + ustr"
  odbc_fault :: "exn option"
  getdate :: nat
  collation_eq :: "nat \<Rightarrow> nat \<Rightarrow> bool"
  code_page :: "nat \<Rightarrow> ustr"
  sql_other :: "ustr \<Rightarrow> table \<Rightarrow> exn + table"
  agent_run :: "ustr \<Rightarrow> ustr \<Rightarrow> table option \<Rightarrow> (exn + ustr) \<times> table option"

text \<open>
  The state the functions change: the database (\<open>None\<close> while table \<open>scraped_data\<close>
  does not exist), the messages shown so far and the \<open>requests.get\<close> calls made so far.
\<close>

record world =
  db :: "table option"
  ui :: "ui_msg list"
  http_calls :: "request list"

definition st_error :: "ustr \<Rightarrow> world \<Rightarrow> world" where
  "st_error msg w = w\<lparr>ui := ui w @ [StError msg]\<rparr>"

definition st_success :: "ustr \<Rightarrow> world \<Rightarrow> world" where
  "st_success msg w = w\<lparr>ui := ui w @ [StSuccess msg]\<rparr>"

section \<open>\<open>create_database_table\<close>\<close>

text \<open>
  \<open>IF NOT EXISTS (...) CREATE TABLE scraped_data (id INT IDENTITY(1,1) PRIMARY KEY, ...)\<close>:
  a new table is empty and its first identity value is 1; an existing one is kept.
\<close>

definition create_database_table :: "env \<Rightarrow> world \<Rightarrow> bool \<times> world" where
  "create_database_table E w =
     (case odbc_fault E of
        Some e \<Rightarrow> (False, st_error (lit ''Database table creation error: '' @ str_exn e) w)
      | None \<Rightarrow>
          (True, w\<lparr>db := (case db w of
                            None \<Rightarrow> Some \<lparr>rows = [], next_identity = 1\<rparr>
                          | Some t \<Rightarrow> Some t)\<rparr>))"

section \<open>\<open>get_page_links\<close>\<close>

definition links_request :: "ustr \<Rightarrow> request" where
  "links_request base_url =
     \<lparr>req_method = GET, req_url = base_url, req_headers = [], req_timeout = Some 10\<rparr>"

text \<open>
  The \<open>for\<close> loop over the anchors, with \<open>links\<close> as it stands on entry. \<open>break\<close> returns
  the list; an exception of \<open>urljoin\<close> or \<open>urlparse\<close> leaves the loop as \<open>Inl\<close>.
\<close>

fun collect_links :: "env \<Rightarrow> ustr \<Rightarrow> int \<Rightarrow> ustr list \<Rightarrow> ustr list \<Rightarrow> exn + ustr list" where
  "collect_links E base_url max_pages links [] = Inr links"
| "collect_links E base_url max_pages links (href # hrefs) =
     (case urljoin E base_url href of
        Inl e \<Rightarrow> Inl e
      | Inr full_url \<Rightarrow>
     (case netloc E full_url of
        Inl e \<Rightarrow> Inl e
      | Inr host \<Rightarrow>
     (case netloc E base_url of
        Inl e \<Rightarrow> Inl e
      | Inr base_host \<Rightarrow>
          if host = base_host
          then (let links' = (if full_url \<notin> set links then links @ [full_url] else links)
                in if max_pages \<le> int (length links') then Inr links'
                   else collect_links E base_url max_pages links' hrefs)
          else collect_links E base_url max_pages links hrefs)))"

text \<open>The body of the \<open>try\<close> block.\<close>

definition get_page_links_try :: "env \<Rightarrow> ustr \<Rightarrow> int \<Rightarrow> exn + ustr list" where
  "get_page_links_try E base_url max_pages =
     (case http_get E (links_request base_url) of
        Inl e \<Rightarrow> Inl e
      | Inr response \<Rightarrow>
     (case raise_for_status response of
        Inl e \<Rightarrow> Inl e
      | Inr u \<Rightarrow>
     (case html_parser E (resp_content response) of
        Inl e \<Rightarrow> Inl e
      | Inr soup \<Rightarrow>
     (case collect_links E base_url max_pages [base_url] (find_all_a_href soup) of
        Inl e \<Rightarrow> Inl e
      | Inr links \<Rightarrow> Inr (slice_to links max_pages)))))"

definition get_page_links :: "env \<Rightarrow> ustr \<Rightarrow> int \<Rightarrow> world \<Rightarrow> ustr list \<times> world" where
  "get_page_links E base_url max_pages w =
     (let w1 = w\<lparr>http_calls := http_calls w @ [links_request base_url]\<rparr>
      in case get_page_links_try E base_url max_pages of
           Inr links \<Rightarrow> (links, w1)
         | Inl e \<Rightarrow> ([base_url], st_error (lit ''Error getting page links: '' @ str_exn e) w1))"

section \<open>\<open>scrape_page\<close>\<close>

definition user_agent :: ustr where
  "user_agent = lit ''Mozilla/5.0 (Windows NT 10.0; Win64; x64) AppleWebKit/537.36 (KHTML, like Gecko) Chrome/91.0.4472.124 Safari/537.36''"

definition scrape_request :: "ustr \<Rightarrow> request" where
  "scrape_request u =
     \<lparr>req_method = GET, req_url = u, req_headers = [(lit ''User-Agent'', user_agent)],
      req_timeout = Some 10\<rparr>"

text \<open>The clean-up of the page text, lines 101 to 103 and the slice of line 108.\<close>

definition clean_text :: "ustr \<Rightarrow> ustr" where
  "clean_text text =
     (let lines = map strip (splitlines text);
          chunks = concat (map (\<lambda>line. map strip (split_sep (lit ''  '') line)) lines)
      in join (lit '' '') (filter (\<lambda>chunk. chunk \<noteq> []) chunks))"

definition scrape_page_try :: "env \<Rightarrow> ustr \<Rightarrow> exn + page" where
  "scrape_page_try E u =
     (case http_get E (scrape_request u) of
        Inl e \<Rightarrow> Inl e
      | Inr response \<Rightarrow>
     (case raise_for_status response of
        Inl e \<Rightarrow> Inl e
      | Inr x \<Rightarrow>
     (case html_parser E (resp_content response) of
        Inl e \<Rightarrow> Inl e
      | Inr soup \<Rightarrow>
          (let title_text = (case find_tag (lit ''title'') soup of
                               Some t \<Rightarrow> strip (get_text t)
                             | None \<Rightarrow> lit ''No Title'');
               soup' = concat (map (decompose [lit ''script'', lit ''style'']) soup);
               content_text = clean_text (concat (map get_text soup'))
           in Inr \<lparr>url = u, title = title_text, content = take 5000 content_text\<rparr>))))"

definition scrape_page :: "env \<Rightarrow> ustr \<Rightarrow> world \<Rightarrow> page option \<times> world" where
  "scrape_page E u w =
     (let w1 = w\<lparr>http_calls := http_calls w @ [scrape_request u]\<rparr>
      in case scrape_page_try E u of
           Inr data \<Rightarrow> (Some data, w1)
         | Inl e \<Rightarrow> (None, st_error (lit ''Error scraping '' @ u @ lit '': '' @ str_exn e) w1))"

section \<open>\<open>save_to_database\<close>\<close>

text \<open>
  \<open>INSERT INTO scraped_data (url, title, content) VALUES (?, ?, ?)\<close> with the three
  fields bound as parameters. The server gives the new row the next identity value and
  the reading of its clock. \<open>id\<close> is an \<open>INT\<close>: past 2147483647 the insert raises
  an arithmetic overflow. The texts of the two errors the server raises by itself are
  abridged.
\<close>

definition no_table_error :: exn where
  "no_table_error = Exception (lit ''Invalid object name scraped_data.'')"

definition identity_overflow_error :: exn where
  "identity_overflow_error =
     Exception (lit ''Arithmetic overflow error converting IDENTITY to data type int.'')"

definition insert_row :: "page \<Rightarrow> nat \<Rightarrow> table \<Rightarrow> table" where
  "insert_row data now t =
     \<lparr>rows = rows t @ [\<lparr>url = url data, title = title data, content = content data,
                          row_id = next_identity t, scraped_at = now\<rparr>],
      next_identity = next_identity t + 1\<rparr>"

definition save_to_database_try :: "env \<Rightarrow> page \<Rightarrow> world \<Rightarrow> exn + table" where
  "save_to_database_try E data w =
     (case odbc_fault E of
        Some e \<Rightarrow> Inl e
      | None \<Rightarrow>
     (case db w of
        None \<Rightarrow> Inl no_table_error
      | Some t \<Rightarrow>
          if 2147483647 < next_identity t then Inl identity_overflow_error
          else Inr (insert_row data (getdate E) t)))"

definition save_to_database :: "env \<Rightarrow> page \<Rightarrow> world \<Rightarrow> bool \<times> world" where
  "save_to_database E data w =
     (case save_to_database_try E data w of
        Inr t \<Rightarrow> (True, w\<lparr>db := Some t\<rparr>)
      | Inl e \<Rightarrow> (False, st_error (lit ''Database save error: '' @ str_exn e) w))"

section \<open>\<open>get_scraped_data\<close>\<close>

text \<open>
  \<open>SELECT * FROM scraped_data ORDER BY scraped_at DESC\<close> read into a data frame, here the
  list of its rows. SQL leaves the order of rows with equal \<open>scraped_at\<close> open; the
  model keeps the later insert first.
\<close>

definition get_scraped_data_try :: "env \<Rightarrow> world \<Rightarrow> exn + row list" where
  "get_scraped_data_try E w =
     (case odbc_fault E of
        Some e \<Rightarrow> Inl e
      | None \<Rightarrow>
     (case db w of
        None \<Rightarrow> Inl no_table_error
      | Some t \<Rightarrow> Inr (rev (sort_key scraped_at (rows t)))))"

definition get_scraped_data :: "env \<Rightarrow> world \<Rightarrow> row list \<times> world" where
  "get_scraped_data E w =
     (case get_scraped_data_try E w of
        Inr df \<Rightarrow> (df, w)
      | Inl e \<Rightarrow> ([], st_error (lit ''Database retrieval error: '' @ str_exn e) w))"

section \<open>\<open>clear_database\<close>\<close>

text \<open>
  The statement is built by an f-string: \<open>u\<close> is pasted between two quotes (code point
  39) after \<open>LIKE\<close>, followed by \<open>%\<close>.
\<close>

definition delete_statement :: "ustr \<Rightarrow> ustr" where
  "delete_statement u =
     lit ''DELETE FROM scraped_data WHERE url LIKE '' @ [39] @ u @ lit ''%'' @ [39]"

text \<open>
  \<open>text LIKE pattern\<close> for a pattern of ordinary characters, \<open>%\<close> (code point 37: any
  string) and \<open>_\<close> (95: any one character); ordinary characters are compared under
  the collation.
\<close>

fun like_match :: "(nat \<Rightarrow> nat \<Rightarrow> bool) \<Rightarrow> ustr \<Rightarrow> ustr \<Rightarrow> bool" where
  "like_match ceq [] [] = True"
| "like_match ceq (c # s) [] = False"
| "like_match ceq [] (p # ps) = (p = 37 \<and> like_match ceq [] ps)"
| "like_match ceq (c # s) (p # ps) =
     (if p = 37 then like_match ceq (c # s) ps \<or> like_match ceq s (p # ps)
      else if p = 95 then like_match ceq s ps
      else ceq c p \<and> like_match ceq s ps)"

text \<open>
  The literal of the statement has no \<open>N\<close> prefix, so the server reads it as a
  \<open>varchar\<close> value in the code page of the database: the ASCII characters stay, every
  other character goes through \<open>code_page\<close>. For the comparison with the \<open>nvarchar\<close>
  column the value is converted back, character by character.
\<close>

definition varchar_literal :: "env \<Rightarrow> ustr \<Rightarrow> ustr" where
  "varchar_literal E s = concat (map (\<lambda>c. if c < 128 then [c] else code_page E c) s)"

text \<open>
  The server running the statement. When \<open>u\<close> has no quote, the text between the
  quotes is one string literal, and the pattern is its \<open>varchar\<close> value; when the
  pattern has no \<open>[\<close> (91), it is in the fragment of \<open>like_match\<close>, and the rows whose
  \<open>url\<close> matches are deleted. Any other \<open>u\<close> gives a statement outside the fragment
  (a quote ends the literal early, a bracket opens a character class), which
  \<open>sql_other\<close> answers.
\<close>

definition exec_delete_like :: "env \<Rightarrow> ustr \<Rightarrow> table \<Rightarrow> exn + table" where
  "exec_delete_like E u t =
     (let pattern = varchar_literal E (u @ [37])
      in if 39 \<in> set u \<or> 91 \<in> set pattern then sql_other E (delete_statement u) t
         else Inr (t\<lparr>rows := filter (\<lambda>r. \<not> like_match (collation_eq E) (url r) pattern)
                                (rows t)\<rparr>))"

definition clear_database_try :: "env \<Rightarrow> ustr \<Rightarrow> world \<Rightarrow> exn + table" where
  "clear_database_try E u w =
     (case odbc_fault E of
        Some e \<Rightarrow> Inl e
      | None \<Rightarrow>
     (case db w of
        None \<Rightarrow> Inl no_table_error
      | Some t \<Rightarrow> exec_delete_like E u t))"

definition clear_database :: "env \<Rightarrow> ustr \<Rightarrow> world \<Rightarrow> bool \<times> world" where
  "clear_database E u w =
     (case clear_database_try E u w of
        Inr t \<Rightarrow> (True, w\<lparr>db := Some t\<rparr>)
      | Inl e \<Rightarrow> (False, st_error (lit ''Database clear error: '' @ str_exn e) w))"

section \<open>\<open>agent_sql_tool\<close>\<close>


section \<open>The clear button of \<open>main\<close>\<close>

text \<open>
  Lines 309 to 315 of \<open>main\<close>: what a press of the clear button runs, with \<open>u\<close> the
  value of the URL field (the empty string while the field is empty).
\<close>

definition main_clear_data_button :: "env \<Rightarrow> ustr \<Rightarrow> world \<Rightarrow> world" where
  "main_clear_data_button E u w =
     (case clear_database E u w of
        (True, w') \<Rightarrow> st_success (lit ''Database cleared successfully!'') w'
      | (False, w') \<Rightarrow> st_error (lit ''Failed to clear database.'') w')"

section \<open>Notions the properties are stated with\<close>

text \<open>
  The anchors of the seed's page as \<open>get_page_links\<close> reads them; none when the fetch
  or the parser fails.
\<close>

definition page_hrefs :: "env \<Rightarrow> ustr \<Rightarrow> ustr list" where
  "page_hrefs E base_url =
     (case http_get E (links_request base_url) of
        Inl e \<Rightarrow> []
      | Inr response \<Rightarrow>
     (case raise_for_status response of
        Inl e \<Rightarrow> []
      | Inr u \<Rightarrow>
     (case html_parser E (resp_content response) of
        Inl e \<Rightarrow> []
      | Inr soup \<Rightarrow> find_all_a_href soup)))"

text \<open>
  A same-domain link: its host component is the seed's host component exactly.
\<close>

definition same_host :: "env \<Rightarrow> ustr \<Rightarrow> ustr \<Rightarrow> bool" where
  "same_host E base_url u =
     (case netloc E u of Inl e \<Rightarrow> False | Inr h \<Rightarrow> netloc E base_url = Inr h)"

text \<open>The same-domain links among the anchors, resolved, in the order of the page.\<close>

definition same_domain_links :: "env \<Rightarrow> ustr \<Rightarrow> ustr list \<Rightarrow> ustr list" where
  "same_domain_links E base_url hrefs =
     concat (map (\<lambda>href. case urljoin E base_url href of
                             Inl e \<Rightarrow> []
                           | Inr u \<Rightarrow> if same_host E base_url u then [u] else []) hrefs)"


text \<open>
  A string starts with a prefix under a collation: the prefix is not longer, and the
  characters are equal one by one. Under the literal comparison this is \<open>prefix\<close>.
\<close>

fun starts_with :: "(nat \<Rightarrow> nat \<Rightarrow> bool) \<Rightarrow> ustr \<Rightarrow> ustr \<Rightarrow> bool" where
  "starts_with ceq s [] = True"
| "starts_with ceq [] (a # p) = False"
| "starts_with ceq (c # s) (a # p) = (ceq c a \<and> starts_with ceq s p)"


text \<open>
  The invariant of the table: the keys are pairwise distinct, start at 1 and lie below
  the next identity value.
\<close>

definition table_inv :: "table \<Rightarrow> bool" where
  "table_inv t =
     (1 \<le> next_identity t \<and> distinct (map row_id (rows t))
      \<and> list_all (\<lambda>r. 1 \<le> row_id r \<and> row_id r < next_identity t) (rows t))"

section \<open>Examples\<close>

text \<open>
  A site that serves one page at every address. The page links to \<open>http://a/\<close>, to
  \<open>http://a/x\<close> twice and to \<open>http://b/\<close>. Its links are absolute, and \<open>urljoin\<close>
  returns an absolute link as it is; \<open>ex_netloc\<close> reads the host of an \<open>http\<close> URL as
  \<open>urlparse\<close> does. The parser is given by its result, the tree \<open>ex_page\<close>; the bytes
  of the response stand for its source.
\<close>

definition ex_netloc :: "ustr \<Rightarrow> exn + ustr" where
  "ex_netloc u =
     (if take 7 u = lit ''http://''
      then Inr (takeWhile (\<lambda>c. c \<noteq> 47 \<and> c \<noteq> 63 \<and> c \<noteq> 35) (drop 7 u))
      else Inr [])"

definition ex_page :: "node list" where
  "ex_page =
     [Tag (lit ''html'') []
        [Tag (lit ''head'') []
           [Tag (lit ''title'') [] [Text (lit '' Home '')],
            Tag (lit ''script'') [] [Text (lit ''var x;'')]],
         Tag (lit ''body'') []
           [Tag (lit ''a'') [(lit ''href'', lit ''http://a/'')] [Text (lit ''home'')],
            Text [10],
            Tag (lit ''a'') [(lit ''href'', lit ''http://a/x'')] [Text (lit ''x  y'')],
            Tag (lit ''a'') [(lit ''href'', lit ''http://b/'')] [Text (lit ''other'')],
            Tag (lit ''a'') [(lit ''href'', lit ''http://a/x'')] [Text (lit ''again'')]]]]"

definition ex_env :: env where
  "ex_env =
     \<lparr>http_get = (\<lambda>r. Inr \<lparr>status_code = 200, reason = lit ''OK'', resp_url = req_url r,
                            resp_content = lit ''<html>''\<rparr>),
      html_parser = (\<lambda>b. Inr ex_page),
      urljoin = (\<lambda>b h. Inr h),
      netloc = ex_netloc,
      odbc_fault = None,
      getdate = 7,
      collation_eq = (=),
      code_page = (\<lambda>c. if c < 256 then [c] else [63]),
      sql_other = (\<lambda>s t. Inr t),
      agent_run = (\<lambda>k q d. (Inr (lit ''42''), d))\<rparr>"

definition ex_world :: world where
  "ex_world = \<lparr>db = None, ui = [], http_calls = []\<rparr>"



text \<open>The same world with every service failing, and a server that answers 404.\<close>

definition ex_env_down :: env where
  "ex_env_down =
     ex_env\<lparr>http_get := (\<lambda>r. Inl (Exception (lit ''Connection refused''))),
             odbc_fault := Some (Exception (lit ''Login timeout expired'')),
             agent_run := (\<lambda>k q d. (Inl (Exception (lit ''Invalid API Key'')), d))\<rparr>"

definition ex_env_404 :: env where
  "ex_env_404 =
     ex_env\<lparr>http_get := (\<lambda>r. Inr \<lparr>status_code = 404, reason = lit ''Not Found'',
                                     resp_url = req_url r, resp_content = []\<rparr>)\<rparr>"





definition ex_lower :: "nat \<Rightarrow> nat" where
  "ex_lower c = (if 65 \<le> c \<and> c \<le> 90 then c + 32 else c)"

definition ex_env_ci :: env where
  "ex_env_ci = ex_env\<lparr>collation_eq := (\<lambda>c a. ex_lower c = ex_lower a)\<rparr>"

definition ex_env_reject :: env where
  "ex_env_reject =
     ex_env\<lparr>sql_other := (\<lambda>s t. Inl (Exception (lit ''Unclosed quotation mark'')))\<rparr>"

text \<open>What \<open>scrape_page\<close> returns for \<open>http://a/\<close> in \<open>ex_env\<close>, and stored rows.\<close>

definition ex_data :: page where
  "ex_data = \<lparr>url = lit ''http://a/'', title = lit ''Home'',
              content = lit ''Home home x yotheragain''\<rparr>"

definition ex_row :: "ustr \<Rightarrow> int \<Rightarrow> nat \<Rightarrow> row" where
  "ex_row u i ticks =
     \<lparr>url = u, title = lit ''T'', content = lit ''C'', row_id = i, scraped_at = ticks\<rparr>"

definition ex_table :: table where
  "ex_table =
     \<lparr>rows = [ex_row (lit ''https://example.com/a'') 1 3,
              ex_row (lit ''https://example.com.evil.net/x'') 2 4,
              ex_row (lit ''https://other.org/'') 3 5],
      next_identity = 4\<rparr>"

definition ex_stored :: world where
  "ex_stored = \<lparr>db = Some ex_table, ui = [], http_calls = []\<rparr>"

text \<open>
  A table with a Cyrillic URL and one of question marks; one with a quote in a URL; one
  whose identity values have run out.
\<close>

definition ex_cyrillic :: ustr where
  "ex_cyrillic = lit ''https://'' @ [1087, 1088, 1080, 1084, 1077, 1088]"

definition ex_stored_cyrillic :: world where
  "ex_stored_cyrillic =
     \<lparr>db = Some \<lparr>rows = [ex_row (ex_cyrillic @ lit ''/x'') 1 3,
                          ex_row (lit ''https://??????/x'') 2 4],
                  next_identity = 3\<rparr>,
      ui = [], http_calls = []\<rparr>"

definition ex_stored_quote :: world where
  "ex_stored_quote =
     \<lparr>db = Some \<lparr>rows = [ex_row (lit ''http://a/'' @ [39] @ lit ''b'') 1 3],
                  next_identity = 2\<rparr>,
      ui = [], http_calls = []\<rparr>"


definition ex_evil :: world where
  "ex_evil =
     \<lparr>db = Some \<lparr>rows = [ex_row (lit ''https://example.com.evil.net/x'') 1 3],
                  next_identity = 2\<rparr>,
      ui = [], http_calls = []\<rparr>"

section \<open>The extractor's content is at most 5000 characters\<close>

lemma scrape_page_try_content:
  "scrape_page_try E u = Inr d \<Longrightarrow> length (content d) \<le> 5000"
  by (auto simp: scrape_page_try_def Let_def split: sum.splits)

text \<open>
  Claim C5. Whenever \<open>scrape_page\<close> succeeds on a URL (it returns a dictionary and not
  \<open>None\<close>), the \<open>content\<close> field of the dictionary has at most 5000 characters.
\<close>

theorem scrape_page_content_le_5000:
  "scrape_page E u w = (Some d, w') \<Longrightarrow> length (content d) \<le> 5000"
  by (auto simp: scrape_page_def Let_def split: sum.splits dest: scrape_page_try_content)

lemma ex_scrape_run:
  "scrape_page ex_env (lit ''http://a/'') ex_world =
     (Some \<lparr>url = lit ''http://a/'', title = lit ''Home'',
             content = lit ''Home home x yotheragain''\<rparr>,
      ex_world\<lparr>http_calls := [scrape_request (lit ''http://a/'')]\<rparr>)"
  by (simp add: scrape_page_def scrape_page_try_def ex_env_def ex_world_def ex_page_def
      raise_for_status_def find_tag_def clean_text_def strip_def is_space_def is_linebreak_def
      lit_def Let_def)

text \<open>The example page is scraped to 23 characters.\<close>

theorem scrape_page_content_le_5000_witness:
  "scrape_page ex_env (lit ''http://a/'') ex_world =
     (Some \<lparr>url = lit ''http://a/'', title = lit ''Home'',
             content = lit ''Home home x yotheragain''\<rparr>,
      ex_world\<lparr>http_calls := [scrape_request (lit ''http://a/'')]\<rparr>)
   \<and> length (content \<lparr>url = lit ''http://a/'', title = lit ''Home'',
                        content = lit ''Home home x yotheragain''\<rparr>) \<le> 5000"
  using ex_scrape_run scrape_page_content_le_5000 [OF ex_scrape_run] by simp

section \<open>The link collector\<close>

subsection \<open>Appending what is new\<close>







subsection \<open>The loop\<close>

lemma set_slice_to: "set (slice_to xs n) \<subseteq> set xs"
  by (auto simp: slice_to_def dest: in_set_takeD)

lemma in_same_domain_links:
  "u \<in> set (same_domain_links E b hrefs) \<longleftrightarrow>
     (\<exists>href \<in> set hrefs. urljoin E b href = Inr u \<and> same_host E b u)"
proof -
  have one: "\<And>href. u \<in> set (case urljoin E b href of Inl e \<Rightarrow> []
                | Inr v \<Rightarrow> if same_host E b v then [v] else [])
             \<longleftrightarrow> urljoin E b href = Inr u \<and> same_host E b u"
    by (auto split: sum.splits if_splits)
  show ?thesis
    unfolding same_domain_links_def set_concat set_map using one by blast
qed






text \<open>Whatever the anchors are, the loop adds same-domain links only.\<close>

lemma collect_links_subset:
  "collect_links E b m links hrefs = Inr L \<Longrightarrow>
   set L \<subseteq> set links \<union> set (same_domain_links E b hrefs)"
proof (induction hrefs arbitrary: links)
  case Nil
  then show ?case by simp
next
  case (Cons href hrefs)
  from Cons.prems obtain u h hb where u: "urljoin E b href = Inr u"
    and h: "netloc E u = Inr h" and hb: "netloc E b = Inr hb"
    by (auto split: sum.splits)
  show ?case
  proof (cases "h = hb")
    case False
    with u h hb Cons.prems have "collect_links E b m links hrefs = Inr L" by simp
    from Cons.IH [OF this] show ?thesis
      using u h hb False by (auto simp: in_same_domain_links)
  next
    case True
    define links' where "links' = (if u \<in> set links then links else links @ [u])"
    have mem: "u \<in> set (same_domain_links E b (href # hrefs))"
      using u h hb True by (auto simp: in_same_domain_links same_host_def)
    have sub: "set links' \<subseteq> set links \<union> set (same_domain_links E b (href # hrefs))"
      using mem by (auto simp: links'_def)
    show ?thesis
    proof (cases "m \<le> int (length links')")
      case True
      with u h hb \<open>h = hb\<close> Cons.prems have "L = links'"
        by (auto simp: links'_def Let_def)
      with sub show ?thesis by simp
    next
      case False
      with u h hb \<open>h = hb\<close> Cons.prems have "collect_links E b m links' hrefs = Inr L"
        by (auto simp: links'_def Let_def)
      from Cons.IH [OF this] sub show ?thesis
        by (auto simp: in_same_domain_links)
    qed
  qed
qed

lemma collect_links_none:
  "collect_links E b m links hrefs = Inr L \<Longrightarrow> same_domain_links E b hrefs = [] \<Longrightarrow>
   L = links"
proof (induction hrefs arbitrary: links)
  case Nil
  then show ?case by simp
next
  case (Cons href hrefs)
  from Cons.prems(1) obtain u h hb where u: "urljoin E b href = Inr u"
    and h: "netloc E u = Inr h" and hb: "netloc E b = Inr hb"
    by (auto split: sum.splits)
  from Cons.prems(2) u h hb have ne: "h \<noteq> hb" and rest: "same_domain_links E b hrefs = []"
    by (auto simp: same_domain_links_def same_host_def split: if_splits)
  from u h hb ne Cons.prems(1) have "collect_links E b m links hrefs = Inr L" by simp
  from Cons.IH [OF this rest] show ?case .
qed

lemma get_page_links_cases:
  "fst (get_page_links E b m w) = [b]
   \<or> (\<exists>L. collect_links E b m [b] (page_hrefs E b) = Inr L
           \<and> fst (get_page_links E b m w) = slice_to L m)"
proof (cases "get_page_links_try E b m")
  case (Inl e)
  then show ?thesis by (simp add: get_page_links_def Let_def)
next
  case (Inr links)
  then obtain r soup L where "http_get E (links_request b) = Inr r"
    and "raise_for_status r = Inr ()" and "html_parser E (resp_content r) = Inr soup"
    and L: "collect_links E b m [b] (find_all_a_href soup) = Inr L"
    and "links = slice_to L m"
    by (auto simp: get_page_links_try_def split: sum.splits)
  then have "page_hrefs E b = find_all_a_href soup" and "fst (get_page_links E b m w) = slice_to L m"
    using Inr by (simp_all add: page_hrefs_def get_page_links_def Let_def)
  with L show ?thesis by auto
qed



subsection \<open>The examples, run\<close>

lemma ex_page_hrefs:
  "page_hrefs ex_env u =
     [lit ''http://a/'', lit ''http://a/x'', lit ''http://b/'', lit ''http://a/x'']"
  by (simp add: page_hrefs_def ex_env_def raise_for_status_def find_all_a_href_def ex_page_def
      lit_def)


lemma ex_links_run:
  "fst (get_page_links ex_env (lit ''http://a/'') 5 ex_world) =
     [lit ''http://a/'', lit ''http://a/x'']"
  by (simp add: get_page_links_def get_page_links_try_def ex_env_def raise_for_status_def
      find_all_a_href_def ex_page_def ex_netloc_def slice_to_def lit_def Let_def)

subsection \<open>A failed fetch\<close>

text \<open>
  Claim C4. When the fetch of the seed fails, with an exception of \<open>requests.get\<close> (a
  network error) or with a status from 400 to 599 (\<open>raise_for_status\<close> raises), then
  for every URL and every cap \<open>get_page_links\<close> returns the list of the seed alone,
  after showing one error message. It returns: the exception does not reach the caller.
\<close>

theorem get_page_links_fetch_failure:
  assumes "http_get E (links_request base_url) = Inl e
           \<or> (\<exists>r. http_get E (links_request base_url) = Inr r
                   \<and> 400 \<le> status_code r \<and> status_code r < 600)"
  shows "\<exists>msg. get_page_links E base_url max_pages w =
           ([base_url],
            st_error (lit ''Error getting page links: '' @ msg)
              (w\<lparr>http_calls := http_calls w @ [links_request base_url]\<rparr>))"
  using assms
proof
  assume "http_get E (links_request base_url) = Inl e"
  then show ?thesis
    by (intro exI [of _ "str_exn e"])
      (simp add: get_page_links_def get_page_links_try_def Let_def)
next
  assume "\<exists>r. http_get E (links_request base_url) = Inr r
                   \<and> 400 \<le> status_code r \<and> status_code r < 600"
  then obtain r where r: "http_get E (links_request base_url) = Inr r"
    and bad: "400 \<le> status_code r" "status_code r < 600" by blast
  from bad have "\<exists>e'. raise_for_status r = Inl e'"
    by (cases "status_code r < 500") (simp_all add: raise_for_status_def)
  then obtain e' where "raise_for_status r = Inl e'" by blast
  with r show ?thesis
    by (intro exI [of _ "str_exn e'"])
      (simp add: get_page_links_def get_page_links_try_def Let_def)
qed

text \<open>A refused connection and a 404, in the example worlds.\<close>

theorem get_page_links_fetch_failure_witness:
  "http_get ex_env_down (links_request (lit ''http://a/'')) = Inl (Exception (lit ''Connection refused''))
   \<and> get_page_links ex_env_down (lit ''http://a/'') 5 ex_world =
       ([lit ''http://a/''],
        st_error (lit ''Error getting page links: Connection refused'')
          (ex_world\<lparr>http_calls := [links_request (lit ''http://a/'')]\<rparr>))
   \<and> status_code (projr (http_get ex_env_404 (links_request (lit ''http://a/'')))) = 404
   \<and> fst (get_page_links ex_env_404 (lit ''http://a/'') 5 ex_world) = [lit ''http://a/'']"
proof -
  have down: "http_get ex_env_down (links_request (lit ''http://a/'')) = Inl (Exception (lit ''Connection refused''))"
    by (simp add: ex_env_down_def)
  have nf: "http_get ex_env_404 (links_request (lit ''http://a/'')) =
              Inr \<lparr>status_code = 404, reason = lit ''Not Found'',
                   resp_url = lit ''http://a/'', resp_content = []\<rparr>"
    by (simp add: ex_env_404_def links_request_def)
  have bad: "\<exists>r. http_get ex_env_404 (links_request (lit ''http://a/'')) = Inr r
               \<and> 400 \<le> status_code r \<and> status_code r < 600"
    unfolding nf by simp
  from get_page_links_fetch_failure [OF disjI1, OF down, where max_pages = 5 and w = ex_world]
  have one: "get_page_links ex_env_down (lit ''http://a/'') 5 ex_world =
       ([lit ''http://a/''],
        st_error (lit ''Error getting page links: Connection refused'')
          (ex_world\<lparr>http_calls := [links_request (lit ''http://a/'')]\<rparr>))"
    by (simp add: get_page_links_def get_page_links_try_def ex_env_down_def ex_world_def
        lit_def Let_def)
  from get_page_links_fetch_failure [OF disjI2, OF bad, where max_pages = 5 and w = ex_world]
  have two: "fst (get_page_links ex_env_404 (lit ''http://a/'') 5 ex_world) = [lit ''http://a/'']"
    by auto
  show ?thesis using down one two nf by simp
qed

subsection \<open>Only links of the seed's host\<close>

text \<open>
  Claim C3. Every URL that \<open>get_page_links\<close> returns, other than the seed, is the
  resolved form of an anchor of the seed's page and has the seed's host exactly
  (\<open>same_host\<close>). When no anchor of the page resolves to a URL of the seed's host, and the
  cap is at least 1, the result is the seed alone.
\<close>

theorem get_page_links_same_host:
  "(\<forall>u \<in> set (fst (get_page_links E b m w)). u \<noteq> b \<longrightarrow>
       same_host E b u \<and> (\<exists>href \<in> set (page_hrefs E b). urljoin E b href = Inr u))
   \<and> (1 \<le> m \<and> same_domain_links E b (page_hrefs E b) = [] \<longrightarrow>
       fst (get_page_links E b m w) = [b])"
proof -
  consider (seed) "fst (get_page_links E b m w) = [b]"
    | (loop) L where "collect_links E b m [b] (page_hrefs E b) = Inr L"
        and "fst (get_page_links E b m w) = slice_to L m"
    using get_page_links_cases [of E b m w] by blast
  then show ?thesis
  proof cases
    case seed
    then show ?thesis by simp
  next
    case loop
    have sub: "set L \<subseteq> insert b (set (same_domain_links E b (page_hrefs E b)))"
      using collect_links_subset [OF loop(1)] by simp
    have first: "same_host E b u \<and> (\<exists>href \<in> set (page_hrefs E b). urljoin E b href = Inr u)"
      if "u \<in> set (slice_to L m)" and "u \<noteq> b" for u
    proof -
      from that(1) have "u \<in> set L" using set_slice_to [of L m] by blast
      with sub that(2) have "u \<in> set (same_domain_links E b (page_hrefs E b))" by blast
      then show ?thesis unfolding in_same_domain_links by blast
    qed
    have second: "slice_to L m = [b]"
      if "1 \<le> m" and "same_domain_links E b (page_hrefs E b) = []"
    proof -
      from collect_links_none [OF loop(1) that(2)] have "L = [b]" .
      with that(1) show ?thesis by (simp add: slice_to_def)
    qed
    show ?thesis unfolding loop(2) using first second by blast
  qed
qed

text \<open>
  From \<open>http://a/\<close> the collector returns \<open>http://a/x\<close>, of host \<open>a\<close>; from
  \<open>http://c/\<close>, whose page has no link to host \<open>c\<close>, only the seed.
\<close>

theorem get_page_links_same_host_witness:
  "fst (get_page_links ex_env (lit ''http://a/'') 5 ex_world) =
     [lit ''http://a/'', lit ''http://a/x'']
   \<and> lit ''http://a/x'' \<noteq> lit ''http://a/''
   \<and> same_host ex_env (lit ''http://a/'') (lit ''http://a/x'')
   \<and> (1::int) \<le> 5
   \<and> same_domain_links ex_env (lit ''http://c/'') (page_hrefs ex_env (lit ''http://c/'')) = []
   \<and> fst (get_page_links ex_env (lit ''http://c/'') 5 ex_world) = [lit ''http://c/'']"
proof -
  have ne: "lit ''http://a/x'' \<noteq> lit ''http://a/''" by (simp add: lit_def)
  have mem: "lit ''http://a/x'' \<in> set (fst (get_page_links ex_env (lit ''http://a/'') 5 ex_world))"
    unfolding ex_links_run by simp
  have none: "same_domain_links ex_env (lit ''http://c/'') (page_hrefs ex_env (lit ''http://c/'')) = []"
    unfolding ex_page_hrefs
    by (simp add: same_domain_links_def same_host_def ex_env_def ex_netloc_def lit_def)
  note thm_a = get_page_links_same_host [of ex_env "lit ''http://a/''" 5 ex_world]
  note thm_c = get_page_links_same_host [of ex_env "lit ''http://c/''" 5 ex_world]
  from thm_a mem ne have "same_host ex_env (lit ''http://a/'') (lit ''http://a/x'')" by blast
  moreover from thm_c none have "fst (get_page_links ex_env (lit ''http://c/'') 5 ex_world) = [lit ''http://c/'']"
    by simp
  ultimately show ?thesis using ne none ex_links_run by simp
qed

subsection \<open>How many links\<close>




section \<open>The store\<close>

lemma save_to_database_succeeds:
  "odbc_fault E = None \<Longrightarrow> db w = Some t \<Longrightarrow> next_identity t \<le> 2147483647 \<Longrightarrow>
   save_to_database E d w = (True, w\<lparr>db := Some (insert_row d (getdate E) t)\<rparr>)"
  by (simp add: save_to_database_def save_to_database_try_def)




subsection \<open>Keys\<close>

lemma table_inv_insert_row:
  assumes "table_inv t"
  shows "table_inv (insert_row d now t)"
proof -
  from assms have pos: "1 \<le> next_identity t" and dist: "distinct (map row_id (rows t))"
    and below: "\<And>r. r \<in> set (rows t) \<Longrightarrow> 1 \<le> row_id r \<and> row_id r < next_identity t"
    by (auto simp: table_inv_def list_all_iff)
  have new: "next_identity t \<notin> row_id ` set (rows t)" using below by fastforce
  show ?thesis
    using pos dist new below
    by (auto simp: table_inv_def insert_row_def list_all_iff dest: below)
qed

lemma table_inv_create:
  "create_database_table E w = (True, w') \<Longrightarrow> db w = None \<Longrightarrow>
   \<exists>t. db w' = Some t \<and> rows t = [] \<and> table_inv t"
  by (auto simp: create_database_table_def table_inv_def split: option.splits)

lemma table_inv_filter:
  "table_inv t \<Longrightarrow> table_inv (t\<lparr>rows := filter P (rows t)\<rparr>)"
  by (auto simp: table_inv_def list_all_iff distinct_map_filter)

text \<open>
  Claim C7 as stated fails in one point: \<open>scraped_at\<close> is the reading of the server's
  clock at the insert, and nothing in the program or the table keeps two inserts from
  reading the same value. Two stores of the same page at clock reading 7 leave two rows
  with the keys 1 and 2 and the same \<open>scraped_at\<close>.
\<close>

theorem save_to_database_same_clock_counterexample:
  "save_to_database ex_env ex_data (ex_world\<lparr>db := Some \<lparr>rows = [], next_identity = 1\<rparr>\<rparr>) =
     (True, ex_world\<lparr>db := Some \<lparr>rows = [\<lparr>url = lit ''http://a/'', title = lit ''Home'',
                                              content = lit ''Home home x yotheragain'',
                                              row_id = 1, scraped_at = 7\<rparr>],
                                    next_identity = 2\<rparr>\<rparr>)
   \<and> save_to_database ex_env ex_data
        (ex_world\<lparr>db := Some \<lparr>rows = [\<lparr>url = lit ''http://a/'', title = lit ''Home'',
                                          content = lit ''Home home x yotheragain'',
                                          row_id = 1, scraped_at = 7\<rparr>],
                                next_identity = 2\<rparr>\<rparr>) =
       (True, ex_world\<lparr>db := Some \<lparr>rows = [\<lparr>url = lit ''http://a/'', title = lit ''Home'',
                                                content = lit ''Home home x yotheragain'',
                                                row_id = 1, scraped_at = 7\<rparr>,
                                               \<lparr>url = lit ''http://a/'', title = lit ''Home'',
                                                content = lit ''Home home x yotheragain'',
                                                row_id = 2, scraped_at = 7\<rparr>],
                                      next_identity = 3\<rparr>\<rparr>)"
  by (simp add: save_to_database_def save_to_database_try_def insert_row_def ex_env_def
      ex_data_def ex_world_def)

text \<open>
  Claim C7, amended. Let the table satisfy its invariant and hold a row with the URL of
  the dictionary to store. When the connection works and the key has not run out, the
  store call succeeds: it appends a second row with that URL and leaves every existing
  row as it was. The key of the new row is the next identity value, greater than every
  key in the table and so distinct from the first row's; its \<open>scraped_at\<close> is the clock
  reading of this insert (distinct from the first row's exactly when the readings
  differ); and the invariant holds again. No condition on \<open>url\<close> is checked.
\<close>

theorem save_to_database_again:
  assumes inv: "table_inv t" and t: "db w = Some t"
    and present: "r0 \<in> set (rows t)" "url r0 = url d"
    and up: "odbc_fault E = None" and room: "next_identity t \<le> 2147483647"
  shows "\<exists>r. save_to_database E d w =
                (True, w\<lparr>db := Some \<lparr>rows = rows t @ [r],
                                       next_identity = next_identity t + 1\<rparr>\<rparr>)
           \<and> url r = url r0 \<and> title r = title d \<and> content r = content d
           \<and> row_id r = next_identity t \<and> row_id r \<noteq> row_id r0
           \<and> list_all (\<lambda>x. row_id x < row_id r) (rows t)
           \<and> scraped_at r = getdate E
           \<and> table_inv \<lparr>rows = rows t @ [r], next_identity = next_identity t + 1\<rparr>"
proof -
  let ?r = "\<lparr>url = url d, title = title d, content = content d,
             row_id = next_identity t, scraped_at = getdate E\<rparr>"
  have ins: "insert_row d (getdate E) t =
               \<lparr>rows = rows t @ [?r], next_identity = next_identity t + 1\<rparr>"
    by (simp add: insert_row_def)
  have run: "save_to_database E d w =
               (True, w\<lparr>db := Some \<lparr>rows = rows t @ [?r],
                                      next_identity = next_identity t + 1\<rparr>\<rparr>)"
    using save_to_database_succeeds [OF up t room, of d] ins by simp
  from inv have below: "list_all (\<lambda>x. row_id x < next_identity t) (rows t)"
    by (auto simp: table_inv_def list_all_iff)
  with present(1) have ne: "next_identity t \<noteq> row_id r0"
    by (auto simp: list_all_iff)
  have inv': "table_inv \<lparr>rows = rows t @ [?r], next_identity = next_identity t + 1\<rparr>"
    using table_inv_insert_row [OF inv, of d "getdate E"] ins by simp
  show ?thesis
    using run present(2) below ne inv' by (intro exI [of _ ?r]) simp
qed

theorem save_to_database_again_witness:
  "table_inv \<lparr>rows = [ex_row (lit ''http://a/'') 1 3], next_identity = 2\<rparr>
   \<and> url (ex_row (lit ''http://a/'') 1 3) = url ex_data
   \<and> odbc_fault ex_env = None
   \<and> save_to_database ex_env ex_data
        (ex_world\<lparr>db := Some \<lparr>rows = [ex_row (lit ''http://a/'') 1 3], next_identity = 2\<rparr>\<rparr>) =
       (True, ex_world\<lparr>db := Some \<lparr>rows = [ex_row (lit ''http://a/'') 1 3,
                                               \<lparr>url = lit ''http://a/'', title = lit ''Home'',
                                                content = lit ''Home home x yotheragain'',
                                                row_id = 2, scraped_at = 7\<rparr>],
                                      next_identity = 3\<rparr>\<rparr>)
   \<and> table_inv \<lparr>rows = [ex_row (lit ''http://a/'') 1 3,
                         \<lparr>url = lit ''http://a/'', title = lit ''Home'',
                          content = lit ''Home home x yotheragain'',
                          row_id = 2, scraped_at = 7\<rparr>],
                 next_identity = 3\<rparr>"
proof -
  let ?t = "\<lparr>rows = [ex_row (lit ''http://a/'') 1 3], next_identity = 2\<rparr>"
  let ?w = "ex_world\<lparr>db := Some ?t\<rparr>"
  have inv: "table_inv ?t" by (simp add: table_inv_def ex_row_def)
  have t: "db ?w = Some ?t" by simp
  have mem: "ex_row (lit ''http://a/'') 1 3 \<in> set (rows ?t)" by simp
  have same: "url (ex_row (lit ''http://a/'') 1 3) = url ex_data"
    by (simp add: ex_row_def ex_data_def)
  have up: "odbc_fault ex_env = None" by (simp add: ex_env_def)
  have room: "next_identity ?t \<le> 2147483647" by simp
  from save_to_database_again [OF inv t mem same up room]
  obtain r where run: "save_to_database ex_env ex_data ?w =
        (True, ?w\<lparr>db := Some \<lparr>rows = rows ?t @ [r], next_identity = next_identity ?t + 1\<rparr>\<rparr>)"
    and inv': "table_inv \<lparr>rows = rows ?t @ [r], next_identity = next_identity ?t + 1\<rparr>"
    by blast
  have direct: "save_to_database ex_env ex_data ?w =
       (True, ex_world\<lparr>db := Some \<lparr>rows = [ex_row (lit ''http://a/'') 1 3,
                                               \<lparr>url = lit ''http://a/'', title = lit ''Home'',
                                                content = lit ''Home home x yotheragain'',
                                                row_id = 2, scraped_at = 7\<rparr>],
                                      next_identity = 3\<rparr>\<rparr>)"
    by (simp add: save_to_database_def save_to_database_try_def insert_row_def ex_env_def
      ex_data_def ex_world_def)
  from run direct have "r = \<lparr>url = lit ''http://a/'', title = lit ''Home'',
                            content = lit ''Home home x yotheragain'',
                            row_id = 2, scraped_at = 7\<rparr>"
    by (simp add: ex_world_def)
  with inv' have "table_inv \<lparr>rows = [ex_row (lit ''http://a/'') 1 3,
                         \<lparr>url = lit ''http://a/'', title = lit ''Home'',
                          content = lit ''Home home x yotheragain'',
                          row_id = 2, scraped_at = 7\<rparr>],
                 next_identity = 3\<rparr>"
    by simp
  with inv same up direct show ?thesis by blast
qed

section \<open>Deleting by prefix\<close>

lemma like_match_percent: "like_match ceq s [37]"
  by (induction s) simp_all

lemma like_match_starts_with:
  assumes "37 \<notin> set p" and "95 \<notin> set p"
  shows "like_match ceq s (p @ [37]) \<longleftrightarrow> starts_with ceq s p"
  using assms
proof (induction p arbitrary: s)
  case Nil
  show ?case by (simp add: like_match_percent)
next
  case (Cons a p)
  then have a: "a \<noteq> 37" "a \<noteq> 95"
    and IH: "\<And>s. like_match ceq s (p @ [37]) \<longleftrightarrow> starts_with ceq s p"
    by auto
  show ?case
  proof (cases s)
    case Nil
    with a show ?thesis by simp
  next
    case (Cons c s')
    with a IH [of s'] show ?thesis by simp
  qed
qed

lemma starts_with_literal: "starts_with (=) s p \<longleftrightarrow> prefix p s"
  by (induction "(=) :: nat \<Rightarrow> nat \<Rightarrow> bool" s p rule: starts_with.induct) auto

lemma varchar_literal_append:
  "varchar_literal E (a @ b) = varchar_literal E a @ varchar_literal E b"
  by (simp add: varchar_literal_def)

lemma varchar_literal_ascii: "list_all (\<lambda>c. c < 128) p \<Longrightarrow> varchar_literal E p = p"
  by (induction p) (simp_all add: varchar_literal_def)

lemma exec_delete_like_pattern:
  assumes "39 \<notin> set p" and "91 \<notin> set p" and "37 \<notin> set p" and "95 \<notin> set p"
    and "varchar_literal E p = p"
  shows "exec_delete_like E p t =
           Inr (t\<lparr>rows := filter (\<lambda>r. \<not> starts_with (collation_eq E) (url r) p) (rows t)\<rparr>)"
proof -
  have pat: "varchar_literal E (p @ [37]) = p @ [37]"
    using assms(5) by (simp add: varchar_literal_append) (simp add: varchar_literal_def)
  show ?thesis
    using assms(1-4)
    by (simp add: exec_delete_like_def pat like_match_starts_with)
qed

subsection \<open>Five deletes\<close>

text \<open>
  \<open>https://example.com.evil.net/x\<close> starts with \<open>https://example.com\<close>, so the
  pattern \<open>https://example.com%\<close> matches it and the row is deleted.
\<close>

lemma ex_evil_delete:
  "clear_database ex_env (lit ''https://example.com'') ex_evil =
     (True, ex_evil\<lparr>db := Some \<lparr>rows = [], next_identity = 2\<rparr>\<rparr>)"
  by (simp add: clear_database_def clear_database_try_def exec_delete_like_def
      varchar_literal_def ex_env_def ex_evil_def ex_row_def lit_def)

text \<open>
  A prefix is read as a pattern: \<open>_\<close> stands for any character, so the prefix
  \<open>https://_xample\<close>, with which no stored URL starts, deletes both rows of
  \<open>example.com\<close>.
\<close>

lemma ex_wildcard_delete:
  "clear_database ex_env (lit ''https://_xample'') ex_stored =
     (True, ex_stored\<lparr>db := Some \<lparr>rows = [ex_row (lit ''https://other.org/'') 3 5],
                                     next_identity = 4\<rparr>\<rparr>)
   \<and> filter (\<lambda>r. prefix (lit ''https://_xample'') (url r)) (rows ex_table) = []"
  by (simp add: clear_database_def clear_database_try_def exec_delete_like_def
      varchar_literal_def ex_env_def ex_stored_def ex_table_def ex_row_def lit_def)

text \<open>
  Characters are compared under the collation of the column: where it ignores case,
  the prefix \<open>HTTPS://EXAMPLE.COM\<close> deletes the same two rows.
\<close>

lemma ex_case_delete:
  "clear_database ex_env_ci (lit ''HTTPS://EXAMPLE.COM'') ex_stored =
     (True, ex_stored\<lparr>db := Some \<lparr>rows = [ex_row (lit ''https://other.org/'') 3 5],
                                     next_identity = 4\<rparr>\<rparr>)
   \<and> filter (\<lambda>r. prefix (lit ''HTTPS://EXAMPLE.COM'') (url r)) (rows ex_table) = []"
  by (simp add: clear_database_def clear_database_try_def exec_delete_like_def
      varchar_literal_def ex_env_ci_def ex_env_def ex_lower_def ex_stored_def ex_table_def
      ex_row_def lit_def)

text \<open>
  The literal is a \<open>varchar\<close> value: in a code page without Cyrillic letters a
  Cyrillic prefix becomes a run of question marks, which keeps the row that starts with
  the prefix and deletes the row whose URL has question marks there.
\<close>

lemma ex_code_page_delete:
  "clear_database ex_env ex_cyrillic ex_stored_cyrillic =
     (True, ex_stored_cyrillic\<lparr>db := Some \<lparr>rows = [ex_row (ex_cyrillic @ lit ''/x'') 1 3],
                                              next_identity = 3\<rparr>\<rparr>)
   \<and> prefix ex_cyrillic (ex_cyrillic @ lit ''/x'')
   \<and> \<not> prefix ex_cyrillic (lit ''https://??????/x'')"
  by (simp add: clear_database_def clear_database_try_def exec_delete_like_def
      varchar_literal_def ex_env_def ex_stored_cyrillic_def ex_cyrillic_def ex_row_def lit_def)

text \<open>
  A quote in the prefix ends the literal early; the server rejects what follows, and
  the row that starts with the prefix stays.
\<close>

lemma ex_quote_delete:
  "clear_database ex_env_reject (lit ''http://a/'' @ [39]) ex_stored_quote =
     (False, ex_stored_quote\<lparr>ui := [StError (lit ''Database clear error: Unclosed quotation mark'')]\<rparr>)"
  by (simp add: clear_database_def clear_database_try_def exec_delete_like_def
      varchar_literal_def ex_env_reject_def ex_env_def ex_stored_quote_def st_error_def
      ex_row_def lit_def)

subsection \<open>What a delete removes\<close>

text \<open>
  Claim C1 as stated fails, in its example (the row of \<open>https://example.com.evil.net/x\<close>
  is deleted) and for prefixes with \<open>_\<close>, under a collation that ignores case, with
  characters the code page of the database lacks, and with a quote.
\<close>

theorem clear_database_evil_counterexample:
  "clear_database ex_env (lit ''https://example.com'') ex_evil =
     (True, ex_evil\<lparr>db := Some \<lparr>rows = [], next_identity = 2\<rparr>\<rparr>)
   \<and> db ex_evil = Some \<lparr>rows = [ex_row (lit ''https://example.com.evil.net/x'') 1 3],
                         next_identity = 2\<rparr>
   \<and> clear_database ex_env (lit ''https://_xample'') ex_stored =
       (True, ex_stored\<lparr>db := Some \<lparr>rows = [ex_row (lit ''https://other.org/'') 3 5],
                                       next_identity = 4\<rparr>\<rparr>)
   \<and> filter (\<lambda>r. prefix (lit ''https://_xample'') (url r)) (rows ex_table) = []
   \<and> clear_database ex_env_ci (lit ''HTTPS://EXAMPLE.COM'') ex_stored =
       (True, ex_stored\<lparr>db := Some \<lparr>rows = [ex_row (lit ''https://other.org/'') 3 5],
                                       next_identity = 4\<rparr>\<rparr>)
   \<and> filter (\<lambda>r. prefix (lit ''HTTPS://EXAMPLE.COM'') (url r)) (rows ex_table) = []
   \<and> clear_database ex_env ex_cyrillic ex_stored_cyrillic =
       (True, ex_stored_cyrillic\<lparr>db := Some \<lparr>rows = [ex_row (ex_cyrillic @ lit ''/x'') 1 3],
                                                next_identity = 3\<rparr>\<rparr>)
   \<and> prefix ex_cyrillic (ex_cyrillic @ lit ''/x'')
   \<and> \<not> prefix ex_cyrillic (lit ''https://??????/x'')
   \<and> clear_database ex_env_reject (lit ''http://a/'' @ [39]) ex_stored_quote =
       (False, ex_stored_quote\<lparr>ui := [StError (lit ''Database clear error: Unclosed quotation mark'')]\<rparr>)
   \<and> prefix (lit ''http://a/'' @ [39]) (lit ''http://a/'' @ [39] @ lit ''b'')"
proof -
  have "db ex_evil = Some \<lparr>rows = [ex_row (lit ''https://example.com.evil.net/x'') 1 3],
                         next_identity = 2\<rparr>"
    by (simp add: ex_evil_def)
  moreover have "prefix (lit ''http://a/'' @ [39]) (lit ''http://a/'' @ [39] @ lit ''b'')"
    by (simp add: lit_def)
  ultimately show ?thesis
    using ex_evil_delete ex_wildcard_delete ex_case_delete ex_code_page_delete ex_quote_delete
    by blast
qed

text \<open>
  Claim C1, amended. For every prefix \<open>p\<close> without a quote, \<open>[\<close>, \<open>%\<close> or \<open>_\<close> that
  the conversion to the code page of the database leaves unchanged (as it does every
  ASCII prefix), a delete that reaches the table removes exactly the rows whose \<open>url\<close>
  starts with \<open>p\<close>, characters compared under the collation of the column, and keeps all
  other rows as they are and in their order; under a collation that compares literally
  these are exactly the rows whose \<open>url\<close> starts with the literal string \<open>p\<close>. (So
  clearing with \<open>https://example.com\<close> does delete the row of
  \<open>https://example.com.evil.net/x\<close>.)
\<close>

theorem clear_database_prefix:
  assumes "39 \<notin> set p" and "91 \<notin> set p" and "37 \<notin> set p" and "95 \<notin> set p"
    and "varchar_literal E p = p" and "odbc_fault E = None" and "db w = Some t"
  shows "clear_database E p w =
           (True, w\<lparr>db := Some (t\<lparr>rows := filter
                     (\<lambda>r. \<not> starts_with (collation_eq E) (url r) p) (rows t)\<rparr>)\<rparr>)
         \<and> (collation_eq E = (=) \<longrightarrow>
              clear_database E p w =
                (True, w\<lparr>db := Some (t\<lparr>rows := filter (\<lambda>r. \<not> prefix p (url r)) (rows t)\<rparr>)\<rparr>))"
  using assms(6,7)
  by (simp add: clear_database_def clear_database_try_def
      exec_delete_like_pattern [OF assms(1-5)] starts_with_literal)

theorem clear_database_prefix_witness:
  "39 \<notin> set (lit ''https://example.com'') \<and> 91 \<notin> set (lit ''https://example.com'')
   \<and> 37 \<notin> set (lit ''https://example.com'') \<and> 95 \<notin> set (lit ''https://example.com'')
   \<and> varchar_literal ex_env (lit ''https://example.com'') = lit ''https://example.com''
   \<and> odbc_fault ex_env = None \<and> db ex_stored = Some ex_table \<and> collation_eq ex_env = (=)
   \<and> filter (\<lambda>r. \<not> prefix (lit ''https://example.com'') (url r)) (rows ex_table) =
       [ex_row (lit ''https://other.org/'') 3 5]
   \<and> clear_database ex_env (lit ''https://example.com'') ex_stored =
       (True, ex_stored\<lparr>db := Some \<lparr>rows = [ex_row (lit ''https://other.org/'') 3 5],
                                       next_identity = 4\<rparr>\<rparr>)
   \<and> varchar_literal ex_env_ci (lit ''HTTPS://EXAMPLE.COM'') = lit ''HTTPS://EXAMPLE.COM''
   \<and> odbc_fault ex_env_ci = None
   \<and> filter (\<lambda>r. \<not> starts_with (collation_eq ex_env_ci) (url r) (lit ''HTTPS://EXAMPLE.COM''))
         (rows ex_table) = [ex_row (lit ''https://other.org/'') 3 5]
   \<and> clear_database ex_env_ci (lit ''HTTPS://EXAMPLE.COM'') ex_stored =
       (True, ex_stored\<lparr>db := Some \<lparr>rows = [ex_row (lit ''https://other.org/'') 3 5],
                                       next_identity = 4\<rparr>\<rparr>)"
proof -
  let ?p = "lit ''https://example.com''"
  let ?P = "lit ''HTTPS://EXAMPLE.COM''"
  have q: "39 \<notin> set ?p" and b: "91 \<notin> set ?p" and p: "37 \<notin> set ?p" and u: "95 \<notin> set ?p"
    by (simp_all add: lit_def)
  have Q: "39 \<notin> set ?P" and B: "91 \<notin> set ?P" and P: "37 \<notin> set ?P" and U: "95 \<notin> set ?P"
    by (simp_all add: lit_def)
  have v: "varchar_literal ex_env ?p = ?p" and V: "varchar_literal ex_env_ci ?P = ?P"
    by (simp_all add: varchar_literal_ascii lit_def)
  have f: "odbc_fault ex_env = None" and F: "odbc_fault ex_env_ci = None"
    and c: "collation_eq ex_env = (=)"
    by (simp_all add: ex_env_def ex_env_ci_def)
  have t: "db ex_stored = Some ex_table" by (simp add: ex_stored_def)
  have kept: "filter (\<lambda>r. \<not> prefix ?p (url r)) (rows ex_table) =
                [ex_row (lit ''https://other.org/'') 3 5]"
    by (simp add: ex_table_def ex_row_def lit_def)
  have Kept: "filter (\<lambda>r. \<not> starts_with (collation_eq ex_env_ci) (url r) ?P) (rows ex_table) =
                [ex_row (lit ''https://other.org/'') 3 5]"
    by (simp add: ex_table_def ex_row_def ex_env_ci_def ex_env_def ex_lower_def lit_def)
  from clear_database_prefix [OF q b p u v f t] c
  have "clear_database ex_env ?p ex_stored =
          (True, ex_stored\<lparr>db := Some (ex_table\<lparr>rows := filter (\<lambda>r. \<not> prefix ?p (url r))
                                                             (rows ex_table)\<rparr>)\<rparr>)"
    by blast
  then have one: "clear_database ex_env ?p ex_stored =
       (True, ex_stored\<lparr>db := Some \<lparr>rows = [ex_row (lit ''https://other.org/'') 3 5],
                                       next_identity = 4\<rparr>\<rparr>)"
    unfolding kept by (simp add: ex_table_def)
  from clear_database_prefix [OF Q B P U V F t]
  have "clear_database ex_env_ci ?P ex_stored =
          (True, ex_stored\<lparr>db := Some (ex_table\<lparr>rows := filter
             (\<lambda>r. \<not> starts_with (collation_eq ex_env_ci) (url r) ?P) (rows ex_table)\<rparr>)\<rparr>)"
    by blast
  then have two: "clear_database ex_env_ci ?P ex_stored =
       (True, ex_stored\<lparr>db := Some \<lparr>rows = [ex_row (lit ''https://other.org/'') 3 5],
                                       next_identity = 4\<rparr>\<rparr>)"
    unfolding Kept by (simp add: ex_table_def)
  show ?thesis using q b p u v f t c kept one V F Kept two by blast
qed

text \<open>
  Claim C10. With the empty string as prefix the pattern is \<open>%\<close>, which matches every
  URL: when the connection works and the table exists, the delete returns \<open>True\<close> and
  leaves no row, and so does a press of the clear button while the URL field is empty,
  which then reports success.
\<close>

theorem clear_database_empty_prefix:
  assumes "odbc_fault E = None" and "db w = Some t"
  shows "clear_database E [] w = (True, w\<lparr>db := Some (t\<lparr>rows := []\<rparr>)\<rparr>)
         \<and> main_clear_data_button E [] w =
             st_success (lit ''Database cleared successfully!'')
               (w\<lparr>db := Some (t\<lparr>rows := []\<rparr>)\<rparr>)"
proof -
  have "exec_delete_like E [] t = Inr (t\<lparr>rows := []\<rparr>)"
    by (simp add: exec_delete_like_def varchar_literal_def like_match_percent)
  then have "clear_database E [] w = (True, w\<lparr>db := Some (t\<lparr>rows := []\<rparr>)\<rparr>)"
    using assms by (simp add: clear_database_def clear_database_try_def)
  then show ?thesis by (simp add: main_clear_data_button_def)
qed

theorem clear_database_empty_prefix_witness:
  "odbc_fault ex_env = None \<and> db ex_stored = Some ex_table
   \<and> clear_database ex_env [] ex_stored =
       (True, ex_stored\<lparr>db := Some \<lparr>rows = [], next_identity = 4\<rparr>\<rparr>)
   \<and> main_clear_data_button ex_env [] ex_stored =
       \<lparr>db = Some \<lparr>rows = [], next_identity = 4\<rparr>,
        ui = [StSuccess (lit ''Database cleared successfully!'')], http_calls = []\<rparr>"
proof -
  have f: "odbc_fault ex_env = None" by (simp add: ex_env_def)
  have t: "db ex_stored = Some ex_table" by (simp add: ex_stored_def)
  from clear_database_empty_prefix [OF f t]
  have "clear_database ex_env [] ex_stored =
          (True, ex_stored\<lparr>db := Some \<lparr>rows = [], next_identity = 4\<rparr>\<rparr>)"
    and "main_clear_data_button ex_env [] ex_stored =
       \<lparr>db = Some \<lparr>rows = [], next_identity = 4\<rparr>,
        ui = [StSuccess (lit ''Database cleared successfully!'')], http_calls = []\<rparr>"
    by (simp_all add: ex_table_def ex_stored_def st_success_def)
  with f t show ?thesis by blast
qed

section \<open>The requests sent\<close>

text \<open>
  Claim C8 holds for \<open>scrape_page\<close> only. Both functions call \<open>requests.get\<close> once, with
  a timeout of 10 seconds; \<open>scrape_page\<close> passes the browser-like \<open>User-Agent\<close> header,
  \<open>get_page_links\<close> passes no header at all.
\<close>

theorem http_requests_sent:
  "http_calls (snd (get_page_links E b m w)) =
     http_calls w @ [\<lparr>req_method = GET, req_url = b, req_headers = [],
                      req_timeout = Some 10\<rparr>]
   \<and> http_calls (snd (scrape_page E u w)) =
       http_calls w @ [\<lparr>req_method = GET, req_url = u,
                        req_headers = [(lit ''User-Agent'', user_agent)],
                        req_timeout = Some 10\<rparr>]"
  by (simp add: get_page_links_def scrape_page_def links_request_def scrape_request_def
      st_error_def Let_def split: sum.splits)

section \<open>Failures are caught\<close>



lemma save_to_database_catches:
  "save_to_database_try E d w = Inl e \<Longrightarrow>
   save_to_database E d w = (False, st_error (lit ''Database save error: '' @ str_exn e) w)"
  by (simp add: save_to_database_def)

lemma get_scraped_data_catches:
  "get_scraped_data_try E w = Inl e \<Longrightarrow>
   get_scraped_data E w = ([], st_error (lit ''Database retrieval error: '' @ str_exn e) w)"
  by (simp add: get_scraped_data_def)

lemma clear_database_catches:
  "clear_database_try E p w = Inl e \<Longrightarrow>
   clear_database E p w = (False, st_error (lit ''Database clear error: '' @ str_exn e) w)"
  by (simp add: clear_database_def)








end
